theory Spec2Isabelle
  imports Main "HOL-Library.AList"
begin

section \<open>Message adapters between protocol versions 4 and 5\<close>

text \<open>
  A shallow embedding of \<^verbatim>\<open>IPython/kernel/adapter.py\<close>. The source is Python, read
  with the semantics of Python 3 (3.6 to 3.11): comparing \<^verbatim>\<open>None\<close> with a number
  raises, \<^verbatim>\<open>int()\<close> accepts single underscores between digits, and
  \<^verbatim>\<open>str.splitlines\<close> knows all of the line boundaries listed below.

  Text is ASCII: a \<^typ>\<open>string\<close> is a list of bytes, so the digits, spaces and line
  boundaries that Python finds beyond ASCII are not represented.
\<close>

subsection \<open>Exceptions\<close>

text \<open>
  Every exception the code can raise is a value. \<open>Not_modelled\<close> is not a Python
  exception: it marks a step whose outcome in Python this model does not represent,
  which is a result that is no value of the type \<open>pyval\<close> below (a dictionary with a
  key that is not a string, the text of a list or of an object's address), or the lookup
  of an attribute name of the form \<^verbatim>\<open>__x__\<close>, which an instance inherits from Python's
  \<^verbatim>\<open>object\<close>. No theorem below reads it as a failure of the code.
\<close>

datatype error =
    KeyError | TypeError | ValueError | IndexError | AttributeError
  | UnboundLocalError | Not_modelled

definition ebind :: "error + 'a \<Rightarrow> ('a \<Rightarrow> error + 'b) \<Rightarrow> error + 'b" where
  "ebind m f = (case m of Inl e \<Rightarrow> Inl e | Inr x \<Rightarrow> f x)"

subsection \<open>Strings\<close>

text \<open>\<^verbatim>\<open>str.splitlines(True)\<close>: the lines of a text, each with its terminator. A line ends
  after \<^verbatim>\<open>\n\<close>, \<^verbatim>\<open>\r\n\<close>, \<^verbatim>\<open>\r\<close>, \<^verbatim>\<open>\v\<close>, \<^verbatim>\<open>\f\<close>, \<^verbatim>\<open>\x1c\<close>, \<^verbatim>\<open>\x1d\<close> or \<^verbatim>\<open>\x1e\<close>.\<close>

definition line_boundary :: "char \<Rightarrow> bool" where
  "line_boundary c = (c \<in> set [CHR 0x0A, CHR 0x0B, CHR 0x0C, CHR 0x0D, CHR 0x1C, CHR 0x1D, CHR 0x1E])"

fun splitlines_from :: "string \<Rightarrow> string \<Rightarrow> string list" where
  "splitlines_from cur [] = (if cur = [] then [] else [cur])"
| "splitlines_from cur (c # cs) =
     (if c = CHR 0x0D then
        (case cs of
           [] \<Rightarrow> [cur @ [c]]
         | d # ds \<Rightarrow>
             if d = CHR 0x0A then (cur @ [c, d]) # splitlines_from [] ds
             else (cur @ [c]) # splitlines_from [] cs)
      else if line_boundary c then (cur @ [c]) # splitlines_from [] cs
      else splitlines_from (cur @ [c]) cs)"

definition splitlines :: "string \<Rightarrow> string list" where
  "splitlines s = splitlines_from [] s"

text \<open>\<^verbatim>\<open>s.split(sep)\<close> for a separator of one character: never the empty list.\<close>

fun split_from :: "char \<Rightarrow> string \<Rightarrow> string \<Rightarrow> string list" where
  "split_from sep cur [] = [cur]"
| "split_from sep cur (c # cs) =
     (if c = sep then cur # split_from sep [] cs else split_from sep (cur @ [c]) cs)"

definition str_split :: "string \<Rightarrow> char \<Rightarrow> string list" where
  "str_split s sep = split_from sep [] s"

text \<open>\<^verbatim>\<open>sep.join(parts)\<close>.\<close>

fun join :: "string \<Rightarrow> string list \<Rightarrow> string" where
  "join sep [] = []"
| "join sep [p] = p"
| "join sep (p # q # ps) = p @ sep @ join sep (q # ps)"

text \<open>\<^verbatim>\<open>s[:n]\<close> on a sequence: a negative \<open>n\<close> counts from the end.\<close>

definition slice_to :: "'a list \<Rightarrow> int \<Rightarrow> 'a list" where
  "slice_to xs n = (if n < 0 then take (nat (int (length xs) + n)) xs else take (nat n) xs)"

text \<open>\<^verbatim>\<open>sub in s\<close> on strings: \<open>sub\<close> occurs in \<open>s\<close> as a contiguous piece.\<close>

fun occurs_in :: "string \<Rightarrow> string \<Rightarrow> bool" where
  "occurs_in sub [] = (sub = [])"
| "occurs_in sub (c # cs) = (take (length sub) (c # cs) = sub \<or> occurs_in sub cs)"

subsubsection \<open>Integers and their text\<close>

text \<open>\<^verbatim>\<open>int(s)\<close> on a string: spaces around, an optional sign, then decimal digits, with
  single underscores allowed between digits; anything else is a \<^verbatim>\<open>ValueError\<close>
  (\<open>None\<close> here).\<close>

definition isspace :: "char \<Rightarrow> bool" where
  "isspace c = (c \<in> set [CHR 0x09, CHR 0x0A, CHR 0x0B, CHR 0x0C, CHR 0x0D,
                           CHR 0x1C, CHR 0x1D, CHR 0x1E, CHR 0x1F, CHR 0x20])"

definition strip :: "string \<Rightarrow> string" where
  "strip s = rev (dropWhile isspace (rev (dropWhile isspace s)))"

definition isdigit :: "char \<Rightarrow> bool" where
  "isdigit c = (48 \<le> (of_char c :: nat) \<and> (of_char c :: nat) \<le> 57)"

definition digit_value :: "char \<Rightarrow> nat" where
  "digit_value c = of_char c - 48"

fun parse_digits :: "nat \<Rightarrow> string \<Rightarrow> nat option" where
  "parse_digits acc [] = Some acc"
| "parse_digits acc (c # cs) =
     (if isdigit c then parse_digits (10 * acc + digit_value c) cs
      else if c = CHR ''_'' then
        (case cs of
           [] \<Rightarrow> None
         | d # ds \<Rightarrow> if isdigit d then parse_digits (10 * acc + digit_value d) ds else None)
      else None)"

definition parse_nat :: "string \<Rightarrow> nat option" where
  "parse_nat s =
     (case s of [] \<Rightarrow> None
      | c # cs \<Rightarrow> if isdigit c then parse_digits (digit_value c) cs else None)"

definition int_of_str :: "string \<Rightarrow> int option" where
  "int_of_str s =
     (case strip s of
        [] \<Rightarrow> None
      | c # cs \<Rightarrow>
          if c = CHR ''-'' then map_option (\<lambda>n. - int n) (parse_nat cs)
          else if c = CHR ''+'' then map_option int (parse_nat cs)
          else map_option int (parse_nat (c # cs)))"

text \<open>\<^verbatim>\<open>str(n)\<close> on an integer.\<close>

fun str_of_nat :: "nat \<Rightarrow> string" where
  "str_of_nat n =
     (if n < 10 then [char_of (48 + n)]
      else str_of_nat (n div 10) @ [char_of (48 + n mod 10)])"

declare str_of_nat.simps [simp del]

definition str_of_int :: "int \<Rightarrow> string" where
  "str_of_int i = (if i < 0 then CHR ''-'' # str_of_nat (nat (- i)) else str_of_nat (nat i))"

subsection \<open>Values\<close>

text \<open>
  A message is what the session layer decodes from JSON: \<^verbatim>\<open>None\<close>, booleans, integers,
  strings, lists, and dictionaries with string keys in the order of insertion. \<open>PObj\<close> is
  an instance of a class that defines nothing (\<^verbatim>\<open>object()\<close>): true, hashable, not
  iterable, and nothing that JSON can write. A message is a tree: no two places of it
  hold the same dictionary or list, so a change made through one name is written back
  at the one place that holds the value.
\<close>

datatype pyval =
    PNone
  | PBool bool
  | PInt int
  | PStr string
  | PList "pyval list"
  | PDict "(string \<times> pyval) list"
  | PObj nat

text \<open>\<^verbatim>\<open>if x:\<close>\<close>

fun truthy :: "pyval \<Rightarrow> bool" where
  "truthy PNone = False"
| "truthy (PBool b) = b"
| "truthy (PInt i) = (i \<noteq> 0)"
| "truthy (PStr s) = (s \<noteq> [])"
| "truthy (PList xs) = (xs \<noteq> [])"
| "truthy (PDict d) = (d \<noteq> [])"
| "truthy (PObj n) = True"

text \<open>A value that can be a dictionary key or a member of a set.\<close>

fun hashable :: "pyval \<Rightarrow> bool" where
  "hashable (PList xs) = False"
| "hashable (PDict d) = False"
| "hashable v = True"

text \<open>The integer of a value that is one: \<^verbatim>\<open>bool\<close> is a subclass of \<^verbatim>\<open>int\<close>.\<close>

fun as_int :: "pyval \<Rightarrow> int option" where
  "as_int (PInt i) = Some i"
| "as_int (PBool b) = Some (if b then 1 else 0)"
| "as_int v = None"

text \<open>\<^verbatim>\<open>x[key]\<close> with a string key.\<close>

fun getitem :: "pyval \<Rightarrow> string \<Rightarrow> error + pyval" where
  "getitem (PDict d) key = (case map_of d key of Some v \<Rightarrow> Inr v | None \<Rightarrow> Inl KeyError)"
| "getitem v key = Inl TypeError"

text \<open>\<^verbatim>\<open>x[key] = value\<close> with a string key: a new key goes last.\<close>

fun setitem :: "pyval \<Rightarrow> string \<Rightarrow> pyval \<Rightarrow> error + pyval" where
  "setitem (PDict d) key v = Inr (PDict (AList.update key v d))"
| "setitem x key v = Inl TypeError"

text \<open>\<^verbatim>\<open>key in x\<close> with a string key: a key of a dictionary, a member of a list, a piece
  of a string.\<close>

fun contains :: "pyval \<Rightarrow> string \<Rightarrow> error + bool" where
  "contains (PDict d) key = Inr (map_of d key \<noteq> None)"
| "contains (PList xs) key = Inr (PStr key \<in> set xs)"
| "contains (PStr s) key = Inr (occurs_in key s)"
| "contains v key = Inl TypeError"

text \<open>\<^verbatim>\<open>x.get(key, default)\<close>\<close>

fun get :: "pyval \<Rightarrow> string \<Rightarrow> pyval \<Rightarrow> error + pyval" where
  "get (PDict d) key dflt = Inr (case map_of d key of Some v \<Rightarrow> v | None \<Rightarrow> dflt)"
| "get v key dflt = Inl AttributeError"

text \<open>\<^verbatim>\<open>x.pop(key, default)\<close> and \<^verbatim>\<open>x.pop(key)\<close>: the value popped and what is left of
  \<open>x\<close>. A list has a \<^verbatim>\<open>pop\<close> too, which takes one index.\<close>

fun pop_default :: "pyval \<Rightarrow> string \<Rightarrow> pyval \<Rightarrow> error + (pyval \<times> pyval)" where
  "pop_default (PDict d) key dflt =
     (case map_of d key of
        Some v \<Rightarrow> Inr (v, PDict (AList.delete key d))
      | None \<Rightarrow> Inr (dflt, PDict d))"
| "pop_default (PList xs) key dflt = Inl TypeError"
| "pop_default v key dflt = Inl AttributeError"

fun pop :: "pyval \<Rightarrow> string \<Rightarrow> error + (pyval \<times> pyval)" where
  "pop (PDict d) key =
     (case map_of d key of
        Some v \<Rightarrow> Inr (v, PDict (AList.delete key d))
      | None \<Rightarrow> Inl KeyError)"
| "pop (PList xs) key = Inl TypeError"
| "pop v key = Inl AttributeError"

text \<open>\<^verbatim>\<open>x.setdefault(key, default)\<close>: the value now under the key, and \<open>x\<close> after.\<close>

fun setdefault :: "pyval \<Rightarrow> string \<Rightarrow> pyval \<Rightarrow> error + (pyval \<times> pyval)" where
  "setdefault (PDict d) key dflt =
     (case map_of d key of
        Some v \<Rightarrow> Inr (v, PDict d)
      | None \<Rightarrow> Inr (dflt, PDict (d @ [(key, dflt)])))"
| "setdefault v key dflt = Inl AttributeError"

text \<open>\<^verbatim>\<open>len(x)\<close>\<close>

fun len :: "pyval \<Rightarrow> error + int" where
  "len (PStr s) = Inr (int (length s))"
| "len (PList xs) = Inr (int (length xs))"
| "len (PDict d) = Inr (int (length d))"
| "len v = Inl TypeError"

text \<open>\<^verbatim>\<open>x[0]\<close>: no key of a dictionary is an integer.\<close>

fun first :: "pyval \<Rightarrow> error + pyval" where
  "first (PList xs) = (case xs of [] \<Rightarrow> Inl IndexError | x # _ \<Rightarrow> Inr x)"
| "first (PStr s) = (case s of [] \<Rightarrow> Inl IndexError | c # _ \<Rightarrow> Inr (PStr [c]))"
| "first (PDict d) = Inl KeyError"
| "first v = Inl TypeError"

text \<open>\<^verbatim>\<open>x[:n]\<close>, where \<open>n\<close> is any value. A slice is not hashable, which is what a
  dictionary answers.\<close>

fun prefix_slice :: "pyval \<Rightarrow> int \<Rightarrow> error + pyval" where
  "prefix_slice (PStr s) n = Inr (PStr (slice_to s n))"
| "prefix_slice (PList xs) n = Inr (PList (slice_to xs n))"
| "prefix_slice v n = Inl TypeError"

text \<open>\<^verbatim>\<open>a - b\<close>\<close>

definition subtract :: "pyval \<Rightarrow> pyval \<Rightarrow> error + int" where
  "subtract a b =
     (case (as_int a, as_int b) of
        (Some i, Some j) \<Rightarrow> Inr (i - j)
      | _ \<Rightarrow> Inl TypeError)"

text \<open>\<^verbatim>\<open>for v in x\<close>: the values the loop sees. A string gives its characters, a
  dictionary its keys.\<close>

fun iter :: "pyval \<Rightarrow> error + pyval list" where
  "iter (PList xs) = Inr xs"
| "iter (PStr s) = Inr (map (\<lambda>c. PStr [c]) s)"
| "iter (PDict d) = Inr (map (\<lambda>(k, v). PStr k) d)"
| "iter v = Inl TypeError"

text \<open>\<^verbatim>\<open>str(x)\<close>. The text of a list or of a dictionary is not modelled, and that of an
  object holds its address.\<close>

fun str :: "pyval \<Rightarrow> error + string" where
  "str PNone = Inr ''None''"
| "str (PBool b) = Inr (if b then ''True'' else ''False'')"
| "str (PInt i) = Inr (str_of_int i)"
| "str (PStr s) = Inr s"
| "str v = Inl Not_modelled"

text \<open>\<^verbatim>\<open>sep.join(parts)\<close> on values: every part must be a string.\<close>

fun strings :: "pyval list \<Rightarrow> string list option" where
  "strings [] = Some []"
| "strings (PStr s # vs) = map_option ((#) s) (strings vs)"
| "strings (v # vs) = None"

definition join_values :: "string \<Rightarrow> pyval list \<Rightarrow> error + pyval" where
  "join_values sep parts =
     (case strings parts of Some ss \<Rightarrow> Inr (PStr (join sep ss)) | None \<Rightarrow> Inl TypeError)"

text \<open>\<^verbatim>\<open>s.startswith(prefix)\<close>\<close>

fun startswith :: "pyval \<Rightarrow> string \<Rightarrow> error + bool" where
  "startswith (PStr s) pre = Inr (take (length pre) s = pre)"
| "startswith v pre = Inl AttributeError"

text \<open>\<^verbatim>\<open>x[key] = value\<close> where the key is any value. A list takes an index. The model
  has no dictionary with a key that is not a string.\<close>

fun setitem_value :: "pyval \<Rightarrow> pyval \<Rightarrow> pyval \<Rightarrow> error + pyval" where
  "setitem_value (PDict d) key v =
     (case key of
        PStr k \<Rightarrow> Inr (PDict (AList.update k v d))
      | _ \<Rightarrow> if hashable key then Inl Not_modelled else Inl TypeError)"
| "setitem_value (PList xs) key v =
     (case as_int key of
        None \<Rightarrow> Inl TypeError
      | Some i \<Rightarrow>
          let j = (if i < 0 then int (length xs) + i else i) in
          if 0 \<le> j \<and> j < int (length xs) then Inr (PList (xs[nat j := v]))
          else Inl IndexError)"
| "setitem_value x key v = Inl TypeError"

text \<open>\<^verbatim>\<open>d.update(other)\<close>. Another dictionary gives its items; anything else is read as
  a sequence of pairs, each a sequence of two values.\<close>

fun update_pairs :: "pyval \<Rightarrow> pyval list \<Rightarrow> error + pyval" where
  "update_pairs d [] = Inr d"
| "update_pairs d (p # ps) =
     ebind (iter p) (\<lambda>kv.
       case kv of
         [k, v] \<Rightarrow> ebind (setitem_value d k v) (\<lambda>d'. update_pairs d' ps)
       | _ \<Rightarrow> Inl ValueError)"

fun update_items :: "(string \<times> pyval) list \<Rightarrow> (string \<times> pyval) list \<Rightarrow> (string \<times> pyval) list" where
  "update_items d [] = d"
| "update_items d ((k, v) # kvs) = update_items (AList.update k v d) kvs"

fun update :: "pyval \<Rightarrow> pyval \<Rightarrow> error + pyval" where
  "update (PDict d) (PDict other) = Inr (PDict (update_items d other))"
| "update (PDict d) other = ebind (iter other) (update_pairs (PDict d))"
| "update v other = Inl AttributeError"

subsection \<open>The line and cursor projector\<close>

text \<open>
  \<^verbatim>\<open>code_to_line(code, cursor_pos)\<close>. The loop variable \<^verbatim>\<open>line\<close> is unbound until the
  first iteration, so it is an \<open>option\<close> here, and returning it unbound raises.
\<close>

fun for_line :: "string list \<Rightarrow> string option \<Rightarrow> int \<Rightarrow> string option \<times> int" where
  "for_line [] line cursor_pos = (line, cursor_pos)"
| "for_line (l # ls) line cursor_pos =
     (let n = int (length l) in
      if cursor_pos > n then for_line ls (Some l) (cursor_pos - n)
      else (Some l, cursor_pos))"

definition code_to_line :: "string \<Rightarrow> int \<Rightarrow> error + (string \<times> int)" where
  "code_to_line code cursor_pos =
     (case for_line (splitlines code) None cursor_pos of
        (None, _) \<Rightarrow> Inl UnboundLocalError
      | (Some line, cursor_pos') \<Rightarrow> Inr (line, cursor_pos'))"

subsection \<open>The version utility\<close>

text \<open>\<^verbatim>\<open>_version_str_to_list(version)\<close>: the loop appends \<^verbatim>\<open>int(part)\<close> and passes over
  a part that raises \<^verbatim>\<open>ValueError\<close>.\<close>

fun for_part :: "string list \<Rightarrow> int list \<Rightarrow> int list" where
  "for_part [] v = v"
| "for_part (part # parts) v =
     (case int_of_str part of
        Some i \<Rightarrow> for_part parts (v @ [i])
      | None \<Rightarrow> for_part parts v)"

definition version_str_to_list :: "string \<Rightarrow> int list" where
  "version_str_to_list version = for_part (str_split version CHR ''.'') []"



subsection \<open>What the module imports\<close>

text \<open>
  Three functions come from outside the repository's source: \<^verbatim>\<open>token_at_cursor\<close> of
  \<^verbatim>\<open>IPython.utils.tokenutil\<close>, and \<^verbatim>\<open>json.dumps\<close> and \<^verbatim>\<open>json.loads\<close> of the standard
  library. They are parameters of the model; each returns a value or raises.
\<close>

record externals =
  token_at_cursor :: "pyval \<Rightarrow> pyval \<Rightarrow> error + pyval"
  json_dumps :: "pyval \<Rightarrow> error + pyval"
  json_loads :: "pyval \<Rightarrow> error + pyval"

text \<open>\<^verbatim>\<open>try: ... except Exception: pass\<close> around a block that changes \<open>x\<close>: when the
  block raises, \<open>x\<close> is as it was.\<close>

definition try_pass :: "pyval \<Rightarrow> error + pyval \<Rightarrow> error + pyval" where
  "try_pass x block =
     (case block of
        Inr x' \<Rightarrow> Inr x'
      | Inl Not_modelled \<Rightarrow> Inl Not_modelled
      | Inl e \<Rightarrow> Inr x)"

subsection \<open>The leaf functions on values of any type\<close>

text \<open>
  \<^verbatim>\<open>code_to_line(code, cursor_pos)\<close> as a handler calls it, on values of any type:
  \<^verbatim>\<open>code.splitlines\<close> needs a string, and \<^verbatim>\<open>cursor_pos > n\<close>, which the first line
  evaluates, needs a number. A cursor that no line moved is returned as it came.
\<close>

definition code_to_line_value :: "pyval \<Rightarrow> pyval \<Rightarrow> error + (pyval \<times> pyval)" where
  "code_to_line_value code cursor_pos =
     (case code of
        PStr s \<Rightarrow>
          if splitlines s = [] then Inl UnboundLocalError
          else
            (case as_int cursor_pos of
               None \<Rightarrow> Inl TypeError
             | Some p \<Rightarrow>
                 ebind (code_to_line s p) (\<lambda>(line, p').
                   Inr (PStr line, if p' = p then cursor_pos else PInt p')))
      | _ \<Rightarrow> Inl AttributeError)"

text \<open>\<^verbatim>\<open>_version_str_to_list(version)\<close> on a value: \<^verbatim>\<open>version.split\<close> needs a string.\<close>

definition version_str_to_list_value :: "pyval \<Rightarrow> error + pyval" where
  "version_str_to_list_value version =
     (case version of
        PStr s \<Rightarrow> Inr (PList (map PInt (version_str_to_list s)))
      | _ \<Rightarrow> Inl AttributeError)"

text \<open>\<^verbatim>\<open>".".join(map(str, v))\<close> on a value.\<close>

fun map_str :: "pyval list \<Rightarrow> error + pyval list" where
  "map_str [] = Inr []"
| "map_str (v # vs) =
     ebind (str v) (\<lambda>s. ebind (map_str vs) (\<lambda>ss. Inr (PStr s # ss)))"

definition version_list_to_str_value :: "pyval \<Rightarrow> error + pyval" where
  "version_list_to_str_value v =
     ebind (iter v) (\<lambda>parts. ebind (map_str parts) (join_values ''.''))"

subsection \<open>The adapter base class\<close>

text \<open>The three classes of the module. An instance has no state of its own.\<close>

datatype adapter = Adapter | V5toV4 | V4toV5

text \<open>\<^verbatim>\<open>self.version\<close>; the base class has none.\<close>

fun version :: "adapter \<Rightarrow> error + pyval" where
  "version Adapter = Inl AttributeError"
| "version V5toV4 = Inr (PStr ''4.1'')"
| "version V4toV5 = Inr (PStr ''5.0'')"

text \<open>\<^verbatim>\<open>self.msg_type_map\<close>: \<^verbatim>\<open>V4toV5\<close> inverts the renames of \<^verbatim>\<open>V5toV4\<close>.\<close>

definition V5toV4_msg_type_map :: "(string \<times> string) list" where
  "V5toV4_msg_type_map =
     [(''execute_result'', ''pyout''),
      (''execute_input'', ''pyin''),
      (''error'', ''pyerr''),
      (''inspect_request'', ''object_info_request''),
      (''inspect_reply'', ''object_info_reply'')]"

fun msg_type_map :: "adapter \<Rightarrow> (string \<times> string) list" where
  "msg_type_map Adapter = []"
| "msg_type_map V5toV4 = V5toV4_msg_type_map"
| "msg_type_map V4toV5 = map (\<lambda>(k, v). (v, k)) V5toV4_msg_type_map"

text \<open>\<^verbatim>\<open>update_header\<close>: \<^verbatim>\<open>V5toV4\<close> pops the version, \<^verbatim>\<open>V4toV5\<close> stamps its own.\<close>

fun update_header :: "adapter \<Rightarrow> pyval \<Rightarrow> error + pyval" where
  "update_header Adapter msg = Inr msg"
| "update_header V5toV4 msg =
     ebind (getitem msg ''header'') (\<lambda>header.
     ebind (pop_default header ''version'' PNone) (\<lambda>(_, header).
     setitem msg ''header'' header))"
| "update_header V4toV5 msg =
     ebind (getitem msg ''header'') (\<lambda>header.
     ebind (version V4toV5) (\<lambda>v.
     ebind (setitem header ''version'' v) (\<lambda>header.
     setitem msg ''header'' header)))"

definition update_metadata :: "adapter \<Rightarrow> pyval \<Rightarrow> error + pyval" where
  "update_metadata self msg = Inr msg"

text \<open>\<^verbatim>\<open>msg_type in self.msg_type_map\<close> hashes the message type. The double assignment
  stores the new name in \<^verbatim>\<open>msg\<close> first and in the header second.\<close>

definition update_msg_type :: "adapter \<Rightarrow> pyval \<Rightarrow> error + pyval" where
  "update_msg_type self msg =
     ebind (getitem msg ''header'') (\<lambda>header.
     ebind (getitem header ''msg_type'') (\<lambda>msg_type.
       if \<not> hashable msg_type then Inl TypeError
       else
         (case msg_type of
            PStr t \<Rightarrow>
              (case map_of (msg_type_map self) t of
                 Some new \<Rightarrow>
                   ebind (setitem msg ''msg_type'' (PStr new)) (\<lambda>msg.
                   ebind (setitem header ''msg_type'' (PStr new)) (\<lambda>header.
                   setitem msg ''header'' header))
               | None \<Rightarrow> Inr msg)
          | _ \<Rightarrow> Inr msg)))"

text \<open>\<^verbatim>\<open>handle_reply_status_error\<close>, as the class body declares it: a function of the one
  parameter \<^verbatim>\<open>msg\<close>, with no \<^verbatim>\<open>self\<close>.\<close>

definition handle_reply_status_error :: "pyval \<Rightarrow> error + pyval" where
  "handle_reply_status_error msg = Inr msg"

text \<open>\<^verbatim>\<open>for key in keys: body\<close>, where the body changes \<^verbatim>\<open>content\<close>.\<close>

fun for_key :: "(pyval \<Rightarrow> string \<Rightarrow> error + pyval) \<Rightarrow> string list \<Rightarrow> pyval \<Rightarrow> error + pyval" where
  "for_key body [] content = Inr content"
| "for_key body (key # keys) content = ebind (body content key) (for_key body keys)"

subsection \<open>From version 5 to version 4\<close>

definition version_to_list_at :: "pyval \<Rightarrow> string \<Rightarrow> error + pyval" where
  "version_to_list_at content key =
     ebind (contains content key) (\<lambda>present.
       if present then
         ebind (getitem content key) (\<lambda>v.
         ebind (version_str_to_list_value v) (\<lambda>v.
         setitem content key v))
       else Inr content)"

text \<open>The key popped under the condition is spelled \<^verbatim>\<open>implmentation_version\<close> in the
  source, and so is the key \<^verbatim>\<open>implmentation\<close> of the last line.\<close>

definition V5toV4_kernel_info_reply :: "pyval \<Rightarrow> error + pyval" where
  "V5toV4_kernel_info_reply msg =
     ebind (getitem msg ''content'') (\<lambda>content.
     ebind (pop_default content ''banner'' PNone) (\<lambda>(_, content).
     ebind (for_key version_to_list_at [''language_version'', ''protocol_version''] content) (\<lambda>content.
     ebind (pop_default content ''implementation'' (PStr [])) (\<lambda>(implementation, content).
     ebind (if implementation = PStr ''ipython''
            then contains content ''implementation_version'' else Inr False) (\<lambda>cond.
     ebind (if cond then
              ebind (pop content ''implmentation_version'') (\<lambda>(v, content).
              setitem content ''ipython_version'' v)
            else Inr content) (\<lambda>content.
     ebind (pop_default content ''implementation_version'' PNone) (\<lambda>(_, content).
     ebind (getitem content ''language'') (\<lambda>language.
     ebind (setdefault content ''implmentation'' language) (\<lambda>(_, content).
     setitem msg ''content'' content)))))))))"

definition V5toV4_execute_request :: "pyval \<Rightarrow> error + pyval" where
  "V5toV4_execute_request msg =
     ebind (getitem msg ''content'') (\<lambda>content.
     ebind (setdefault content ''user_variables'' (PList [])) (\<lambda>(_, content).
     setitem msg ''content'' content))"

definition V5toV4_execute_reply :: "pyval \<Rightarrow> error + pyval" where
  "V5toV4_execute_reply msg =
     ebind (getitem msg ''content'') (\<lambda>content.
     ebind (setdefault content ''user_variables'' (PDict [])) (\<lambda>(_, content).
     setitem msg ''content'' content))"

definition V5toV4_complete_request :: "pyval \<Rightarrow> error + pyval" where
  "V5toV4_complete_request msg =
     ebind (getitem msg ''content'') (\<lambda>content.
     ebind (getitem content ''code'') (\<lambda>code.
     ebind (getitem content ''cursor_pos'') (\<lambda>cursor_pos.
     ebind (code_to_line_value code cursor_pos) (\<lambda>(line, cursor_pos).
     setitem msg ''content''
       (PDict [(''text'', PStr []), (''line'', line), (''block'', PNone),
               (''cursor_pos'', cursor_pos)])))))"

definition V5toV4_complete_reply :: "pyval \<Rightarrow> error + pyval" where
  "V5toV4_complete_reply msg =
     ebind (getitem msg ''content'') (\<lambda>content.
     ebind (pop content ''cursor_start'') (\<lambda>(cursor_start, content).
     ebind (pop content ''cursor_end'') (\<lambda>(cursor_end, content).
     ebind (subtract cursor_end cursor_start) (\<lambda>match_len.
     ebind (getitem content ''matches'') (\<lambda>matches.
     ebind (first matches) (\<lambda>m.
     ebind (prefix_slice m match_len) (\<lambda>matched_text.
     ebind (setitem content ''matched_text'' matched_text) (\<lambda>content.
     ebind (pop_default content ''metadata'' PNone) (\<lambda>(_, content).
     setitem msg ''content'' content)))))))))"

definition V5toV4_object_info_request :: "externals \<Rightarrow> pyval \<Rightarrow> error + pyval" where
  "V5toV4_object_info_request ext msg =
     ebind (getitem msg ''content'') (\<lambda>content.
     ebind (getitem content ''code'') (\<lambda>code.
     ebind (getitem content ''cursor_pos'') (\<lambda>cursor_pos.
     ebind (code_to_line_value code cursor_pos) (\<lambda>(line, _).
     ebind (token_at_cursor ext code cursor_pos) (\<lambda>oname.
     ebind (getitem content ''detail_level'') (\<lambda>detail_level.
     setitem msg ''content''
       (PDict [(''oname'', oname), (''detail_level'', detail_level)])))))))"

definition V5toV4_object_info_reply :: "pyval \<Rightarrow> error + pyval" where
  "V5toV4_object_info_reply msg =
     setitem msg ''content'' (PDict [(''found'', PBool False), (''name'', PStr ''unknown'')])"

text \<open>The \<^verbatim>\<open>try\<close> block reads the entry, serialises it and stores the text.\<close>

definition V5toV4_display_data :: "externals \<Rightarrow> pyval \<Rightarrow> error + pyval" where
  "V5toV4_display_data ext msg =
     ebind (getitem msg ''content'') (\<lambda>content.
     ebind (setdefault content ''source'' (PStr ''display'')) (\<lambda>(_, content).
     ebind (getitem content ''data'') (\<lambda>data.
     ebind (contains data ''application/json'') (\<lambda>present.
     ebind (if present then
              try_pass data
                (ebind (getitem data ''application/json'') (\<lambda>v.
                 ebind (json_dumps ext v) (\<lambda>text.
                 setitem data ''application/json'' text)))
            else Inr data) (\<lambda>data.
     ebind (setitem content ''data'' data) (\<lambda>content.
     setitem msg ''content'' content))))))"

definition V5toV4_input_request :: "pyval \<Rightarrow> error + pyval" where
  "V5toV4_input_request msg =
     ebind (getitem msg ''content'') (\<lambda>content.
     ebind (pop_default content ''password'' PNone) (\<lambda>(_, content).
     setitem msg ''content'' content))"

subsection \<open>From version 4 to version 5\<close>

definition version_to_str_at :: "pyval \<Rightarrow> string \<Rightarrow> error + pyval" where
  "version_to_str_at content key =
     ebind (contains content key) (\<lambda>present.
       if present then
         ebind (getitem content key) (\<lambda>v.
         ebind (version_list_to_str_value v) (\<lambda>v.
         setitem content key v))
       else Inr content)"

definition V4toV5_kernel_info_reply :: "pyval \<Rightarrow> error + pyval" where
  "V4toV5_kernel_info_reply msg =
     ebind (getitem msg ''content'') (\<lambda>content.
     ebind (for_key version_to_str_at
              [''language_version'', ''protocol_version'', ''ipython_version''] content) (\<lambda>content.
     ebind (getitem content ''language'') (\<lambda>language.
     ebind (startswith language ''python'') (\<lambda>python.
     ebind (if python then contains content ''ipython_version'' else Inr False) (\<lambda>cond.
     ebind (if cond then
              ebind (setitem content ''implementation'' (PStr ''ipython'')) (\<lambda>content.
              ebind (pop content ''ipython_version'') (\<lambda>(v, content).
              setitem content ''implementation_version'' v))
            else Inr content) (\<lambda>content.
     ebind (setitem content ''banner'' (PStr [])) (\<lambda>content.
     setitem msg ''content'' content)))))))"

text \<open>\<^verbatim>\<open>for v in user_variables: user_expressions[v] = v\<close>\<close>

fun for_variable :: "pyval list \<Rightarrow> pyval \<Rightarrow> error + pyval" where
  "for_variable [] user_expressions = Inr user_expressions"
| "for_variable (v # vs) user_expressions =
     ebind (setitem_value user_expressions v v) (for_variable vs)"

definition V4toV5_execute_request :: "pyval \<Rightarrow> error + pyval" where
  "V4toV5_execute_request msg =
     ebind (getitem msg ''content'') (\<lambda>content.
     ebind (pop_default content ''user_variables'' (PList [])) (\<lambda>(user_variables, content).
     ebind (setdefault content ''user_expressions'' (PDict [])) (\<lambda>(user_expressions, content).
     ebind (iter user_variables) (\<lambda>vs.
     ebind (for_variable vs user_expressions) (\<lambda>user_expressions.
     ebind (setitem content ''user_expressions'' user_expressions) (\<lambda>content.
     setitem msg ''content'' content))))))"

definition V4toV5_execute_reply :: "pyval \<Rightarrow> error + pyval" where
  "V4toV5_execute_reply msg =
     ebind (getitem msg ''content'') (\<lambda>content.
     ebind (setdefault content ''user_expressions'' (PDict [])) (\<lambda>(user_expressions, content).
     ebind (pop_default content ''user_variables'' (PDict [])) (\<lambda>(user_variables, content).
     ebind (if truthy user_variables then update user_expressions user_variables
            else Inr user_expressions) (\<lambda>user_expressions.
     ebind (setitem content ''user_expressions'' user_expressions) (\<lambda>content.
     setitem msg ''content'' content)))))"

definition V4toV5_complete_request :: "pyval \<Rightarrow> error + pyval" where
  "V4toV5_complete_request msg =
     ebind (getitem msg ''content'') (\<lambda>old_content.
     ebind (getitem old_content ''line'') (\<lambda>line.
     ebind (getitem old_content ''cursor_pos'') (\<lambda>cursor_pos.
     setitem msg ''content'' (PDict [(''code'', line), (''cursor_pos'', cursor_pos)]))))"

definition V4toV5_complete_reply :: "pyval \<Rightarrow> error + pyval" where
  "V4toV5_complete_reply msg =
     ebind (getitem msg ''content'') (\<lambda>content.
     ebind (getitem content ''matches'') (\<lambda>matches.
     ebind (getitem content ''matched_text'') (\<lambda>matched_text.
     ebind (len matched_text) (\<lambda>n.
     setitem msg ''content''
       (PDict [(''status'', PStr ''ok''), (''matches'', matches), (''cursor_start'', PInt (- n)),
               (''cursor_end'', PNone), (''metadata'', PDict [])])))))"

definition V4toV5_inspect_request :: "pyval \<Rightarrow> error + pyval" where
  "V4toV5_inspect_request msg =
     ebind (getitem msg ''content'') (\<lambda>content.
     ebind (getitem content ''oname'') (\<lambda>name.
     ebind (len name) (\<lambda>n.
     ebind (getitem content ''detail_level'') (\<lambda>detail_level.
     setitem msg ''content''
       (PDict [(''code'', name), (''cursor_pos'', PInt n), (''detail_level'', detail_level)])))))"

text \<open>\<^verbatim>\<open>for key in keys: if content.get(key, False): lines.append(content[key]); break\<close>\<close>

fun for_key_append :: "string list \<Rightarrow> pyval \<Rightarrow> pyval list \<Rightarrow> error + pyval list" where
  "for_key_append [] content lines = Inr lines"
| "for_key_append (key # keys) content lines =
     ebind (get content key (PBool False)) (\<lambda>v.
       if truthy v then ebind (getitem content key) (\<lambda>v. Inr (lines @ [v]))
       else for_key_append keys content lines)"

definition V4toV5_inspect_reply :: "pyval \<Rightarrow> error + pyval" where
  "V4toV5_inspect_reply msg =
     ebind (getitem msg ''content'') (\<lambda>content.
     ebind (getitem content ''found'') (\<lambda>found.
     ebind (getitem content ''name'') (\<lambda>name.
     ebind (if truthy found then
              ebind (for_key_append [''call_def'', ''init_definition'', ''definition'']
                       content []) (\<lambda>lines.
              ebind (for_key_append [''call_docstring'', ''init_docstring'', ''docstring'']
                       content lines) (\<lambda>lines.
              ebind (join_values ''\<newline>''
                       (if lines = [] then [PStr ''<empty docstring>''] else lines)) (\<lambda>text.
              Inr (PDict [(''text/plain'', text)]))))
            else Inr (PDict [])) (\<lambda>data.
     setitem msg ''content''
       (PDict [(''status'', PStr ''ok''), (''found'', found), (''name'', name),
               (''data'', data), (''metadata'', PDict [])])))))"

definition V4toV5_display_data :: "externals \<Rightarrow> pyval \<Rightarrow> error + pyval" where
  "V4toV5_display_data ext msg =
     ebind (getitem msg ''content'') (\<lambda>content.
     ebind (pop_default content ''source'' PNone) (\<lambda>(_, content).
     ebind (getitem content ''data'') (\<lambda>data.
     ebind (contains data ''application/json'') (\<lambda>present.
     ebind (if present then
              try_pass data
                (ebind (getitem data ''application/json'') (\<lambda>v.
                 ebind (json_loads ext v) (\<lambda>value.
                 setitem data ''application/json'' value)))
            else Inr data) (\<lambda>data.
     ebind (setitem content ''data'' data) (\<lambda>content.
     setitem msg ''content'' content))))))"

definition V4toV5_input_request :: "pyval \<Rightarrow> error + pyval" where
  "V4toV5_input_request msg =
     ebind (getitem msg ''content'') (\<lambda>content.
     ebind (setdefault content ''password'' (PBool False)) (\<lambda>(_, content).
     setitem msg ''content'' content))"

subsection \<open>Calling an adapter\<close>

text \<open>
  What a class body binds a name to: a function of the one parameter \<^verbatim>\<open>msg\<close>, a
  function of \<^verbatim>\<open>self\<close> and \<^verbatim>\<open>msg\<close>, or data. \<^verbatim>\<open>self.name(msg)\<close> passes the instance
  first, so a function of one parameter gets one argument too many, and data cannot be
  called at all.
\<close>

datatype attribute =
    Function1 "pyval \<Rightarrow> error + pyval"
  | Function2 "adapter \<Rightarrow> pyval \<Rightarrow> error + pyval"
  | Data

fun call_bound :: "adapter \<Rightarrow> attribute \<Rightarrow> pyval \<Rightarrow> error + pyval" where
  "call_bound self (Function2 f) msg = f self msg"
| "call_bound self (Function1 f) msg = Inl TypeError"
| "call_bound self Data msg = Inl TypeError"

text \<open>The names that the three class bodies bind, \<^verbatim>\<open>__call__\<close> apart.\<close>

definition Adapter_class :: "(string \<times> attribute) list" where
  "Adapter_class =
     [(''msg_type_map'', Data),
      (''update_header'', Function2 update_header),
      (''update_metadata'', Function2 update_metadata),
      (''update_msg_type'', Function2 update_msg_type),
      (''handle_reply_status_error'', Function1 handle_reply_status_error)]"

definition V5toV4_class :: "externals \<Rightarrow> (string \<times> attribute) list" where
  "V5toV4_class ext =
     [(''version'', Data),
      (''msg_type_map'', Data),
      (''update_header'', Function2 update_header),
      (''kernel_info_reply'', Function2 (\<lambda>self. V5toV4_kernel_info_reply)),
      (''execute_request'', Function2 (\<lambda>self. V5toV4_execute_request)),
      (''execute_reply'', Function2 (\<lambda>self. V5toV4_execute_reply)),
      (''complete_request'', Function2 (\<lambda>self. V5toV4_complete_request)),
      (''complete_reply'', Function2 (\<lambda>self. V5toV4_complete_reply)),
      (''object_info_request'', Function2 (\<lambda>self. V5toV4_object_info_request ext)),
      (''object_info_reply'', Function2 (\<lambda>self. V5toV4_object_info_reply)),
      (''display_data'', Function2 (\<lambda>self. V5toV4_display_data ext)),
      (''input_request'', Function2 (\<lambda>self. V5toV4_input_request))]"

definition V4toV5_class :: "externals \<Rightarrow> (string \<times> attribute) list" where
  "V4toV5_class ext =
     [(''version'', Data),
      (''msg_type_map'', Data),
      (''update_header'', Function2 update_header),
      (''kernel_info_reply'', Function2 (\<lambda>self. V4toV5_kernel_info_reply)),
      (''execute_request'', Function2 (\<lambda>self. V4toV5_execute_request)),
      (''execute_reply'', Function2 (\<lambda>self. V4toV5_execute_reply)),
      (''complete_request'', Function2 (\<lambda>self. V4toV5_complete_request)),
      (''complete_reply'', Function2 (\<lambda>self. V4toV5_complete_reply)),
      (''inspect_request'', Function2 (\<lambda>self. V4toV5_inspect_request)),
      (''inspect_reply'', Function2 (\<lambda>self. V4toV5_inspect_reply)),
      (''display_data'', Function2 (\<lambda>self. V4toV5_display_data ext)),
      (''input_request'', Function2 (\<lambda>self. V4toV5_input_request))]"

text \<open>The names an instance sees: its own class first, then the base class.\<close>

fun attributes :: "externals \<Rightarrow> adapter \<Rightarrow> (string \<times> attribute) list" where
  "attributes ext Adapter = Adapter_class"
| "attributes ext V5toV4 = V5toV4_class ext @ Adapter_class"
| "attributes ext V4toV5 = V4toV5_class ext @ Adapter_class"

definition dunder :: "string \<Rightarrow> bool" where
  "dunder name =
     (4 < length name \<and> take 2 name = ''__'' \<and> drop (length name - 2) name = ''__'')"

text \<open>\<^verbatim>\<open>getattr(self, name, None)\<close>: the name must be a string.\<close>

definition getattr :: "externals \<Rightarrow> adapter \<Rightarrow> pyval \<Rightarrow> error + attribute option" where
  "getattr ext self name =
     (case name of
        PStr n \<Rightarrow> if dunder n then Inl Not_modelled else Inr (map_of (attributes ext self) n)
      | _ \<Rightarrow> Inl TypeError)"

text \<open>\<^verbatim>\<open>Adapter.__call__\<close>. The test \<^verbatim>\<open>status in {'error', 'aborted'}\<close> hashes the
  status.\<close>

definition call :: "externals \<Rightarrow> adapter \<Rightarrow> pyval \<Rightarrow> error + pyval" where
  "call ext self msg =
     ebind (update_header self msg) (\<lambda>msg.
     ebind (update_metadata self msg) (\<lambda>msg.
     ebind (update_msg_type self msg) (\<lambda>msg.
     ebind (getitem msg ''header'') (\<lambda>header.
     ebind (getitem header ''msg_type'') (\<lambda>msg_type.
     ebind (getattr ext self msg_type) (\<lambda>handler.
       case handler of
         None \<Rightarrow> Inr msg
       | Some handler \<Rightarrow>
           ebind (getitem msg ''content'') (\<lambda>content.
           ebind (get content ''status'' PNone) (\<lambda>status.
             if \<not> hashable status then Inl TypeError
             else if status = PStr ''error'' \<or> status = PStr ''aborted''
             then call_bound self (Function1 handle_reply_status_error) msg
             else call_bound self handler msg))))))))"

subsection \<open>The registry and the entry point\<close>

text \<open>One adapter per pair of major versions, from and to.\<close>

definition adapters :: "int \<times> int \<Rightarrow> adapter option" where
  "adapters = map_of [((5, 4), V5toV4), ((4, 5), V4toV5)]"

text \<open>The major version a message comes from:
  \<^verbatim>\<open>int(header['version'].split('.')[0])\<close>, or 4 for a header with no version.\<close>

definition from_version :: "pyval \<Rightarrow> error + int" where
  "from_version header =
     ebind (contains header ''version'') (\<lambda>present.
       if present then
         ebind (getitem header ''version'') (\<lambda>v.
           case v of
             PStr s \<Rightarrow>
               (case int_of_str (hd (str_split s CHR ''.'')) of
                  Some i \<Rightarrow> Inr i
                | None \<Rightarrow> Inl ValueError)
           | _ \<Rightarrow> Inl AttributeError)
       else Inr 4)"

text \<open>\<^verbatim>\<open>adapt(msg, to_version)\<close>. The default of \<^verbatim>\<open>to_version\<close> is imported from
  \<^verbatim>\<open>IPython.core.release\<close>; here the caller gives the target version.\<close>

definition adapt :: "externals \<Rightarrow> pyval \<Rightarrow> int \<Rightarrow> error + pyval" where
  "adapt ext msg to_version =
     ebind (getitem msg ''header'') (\<lambda>header.
     ebind (from_version header) (\<lambda>from_version.
       case adapters (from_version, to_version) of
         None \<Rightarrow> Inr msg
       | Some adapter \<Rightarrow> call ext adapter msg))"

subsection \<open>Segments of a version string\<close>



subsection \<open>The two copies of the message type\<close>



subsection \<open>An instance of the imported functions\<close>

text \<open>
  For the examples below, imported functions that answer on a few inputs as the real
  ones do, and are not modelled on the rest: \<^verbatim>\<open>json.dumps\<close> writes \<^verbatim>\<open>None\<close>, booleans
  and integers and refuses an object; \<^verbatim>\<open>json.loads\<close> refuses what is not a string, and
  the empty string, and reads \<^verbatim>\<open>null\<close>.
\<close>

definition sample_dumps :: "pyval \<Rightarrow> error + pyval" where
  "sample_dumps v =
     (case v of
        PNone \<Rightarrow> Inr (PStr ''null'')
      | PBool b \<Rightarrow> Inr (PStr (if b then ''true'' else ''false''))
      | PInt i \<Rightarrow> Inr (PStr (str_of_int i))
      | PObj n \<Rightarrow> Inl TypeError
      | _ \<Rightarrow> Inl Not_modelled)"

definition sample_loads :: "pyval \<Rightarrow> error + pyval" where
  "sample_loads v =
     (case v of
        PStr s \<Rightarrow>
          if s = [] then Inl ValueError
          else if s = ''null'' then Inr PNone
          else Inl Not_modelled
      | _ \<Rightarrow> Inl TypeError)"

definition sample_externals :: externals where
  "sample_externals =
     \<lparr>token_at_cursor = (\<lambda>code cursor_pos. Inl Not_modelled),
      json_dumps = sample_dumps,
      json_loads = sample_loads\<rparr>"

subsection \<open>The text of an inspect reply, in the words of the specification\<close>

text \<open>
  The first of the keys whose value is a string that is not empty; then the text of a
  reply: the first definition, a newline, the first docstring; one of the two alone when
  the other is missing; a placeholder when both are. \<open>text_or_none\<close> is what version 4
  of the protocol allows under these keys: no entry, \<^verbatim>\<open>None\<close> or a string.
\<close>

fun first_nonempty :: "(string \<times> pyval) list \<Rightarrow> string list \<Rightarrow> string option" where
  "first_nonempty d [] = None"
| "first_nonempty d (key # keys) =
     (case map_of d key of
        Some (PStr s) \<Rightarrow> if s = [] then first_nonempty d keys else Some s
      | _ \<Rightarrow> first_nonempty d keys)"

definition inspect_text :: "(string \<times> pyval) list \<Rightarrow> string" where
  "inspect_text d =
     (case (first_nonempty d [''call_def'', ''init_definition'', ''definition''],
            first_nonempty d [''call_docstring'', ''init_docstring'', ''docstring'']) of
        (Some a, Some b) \<Rightarrow> a @ ''\<newline>'' @ b
      | (Some a, None) \<Rightarrow> a
      | (None, Some b) \<Rightarrow> b
      | (None, None) \<Rightarrow> ''<empty docstring>'')"

definition text_or_none :: "(string \<times> pyval) list \<Rightarrow> string \<Rightarrow> bool" where
  "text_or_none d key =
     (case map_of d key of
        None \<Rightarrow> True
      | Some PNone \<Rightarrow> True
      | Some (PStr s) \<Rightarrow> True
      | Some _ \<Rightarrow> False)"

section \<open>Properties\<close>

subsection \<open>Lines of a text\<close>

lemma concat_splitlines_from: "concat (splitlines_from cur s) = cur @ s"
  by (induction cur s rule: splitlines_from.induct) (auto split: list.splits)

lemma splitlines_from_Nil: "splitlines_from cur s = [] \<longleftrightarrow> cur = [] \<and> s = []"
  by (induction cur s rule: splitlines_from.induct) (auto split: list.splits if_splits)

lemma concat_splitlines: "concat (splitlines s) = s"
  by (simp add: splitlines_def concat_splitlines_from)

lemma length_concat_int: "int (length (concat xs)) = (\<Sum>l\<leftarrow>xs. int (length l))"
  by (induction xs) auto

lemma length_splitlines: "(\<Sum>l\<leftarrow>splitlines s. int (length l)) = int (length s)"
  using length_concat_int [of "splitlines s"] by (simp add: concat_splitlines)

text \<open>The loop of \<open>code_to_line\<close> on a list of lines that is not empty: it stops in
  the line that holds the offset, or runs through all lines and keeps what is left of the
  offset.\<close>

lemma for_line_result:
  "ls \<noteq> [] \<Longrightarrow> 0 \<le> p \<Longrightarrow>
   \<exists>l r. for_line ls line p = (Some l, r) \<and> l \<in> set ls \<and> 0 \<le> r \<and>
     (if p \<le> (\<Sum>l\<leftarrow>ls. int (length l)) then r \<le> int (length l)
      else l = last ls \<and> r = p - (\<Sum>l\<leftarrow>ls. int (length l)))"
proof (induction ls arbitrary: line p)
  case Nil
  then show ?case by simp
next
  case (Cons a ls)
  have nonneg: "0 \<le> (\<Sum>l\<leftarrow>ls. int (length l))"
    by (rule sum_list_nonneg) auto
  show ?case
  proof (cases "p > int (length a)")
    case False
    with Cons.prems nonneg show ?thesis by (simp add: Let_def)
  next
    case True
    show ?thesis
    proof (cases "ls = []")
      case True
      with \<open>p > int (length a)\<close> show ?thesis by (simp add: Let_def)
    next
      case False
      from True have "0 \<le> p - int (length a)" by simp
      from Cons.IH [OF False this, of "Some a"]
      obtain l r where res: "for_line ls (Some a) (p - int (length a)) = (Some l, r)"
        and mem: "l \<in> set ls" and r0: "0 \<le> r"
        and rest: "if p - int (length a) \<le> (\<Sum>l\<leftarrow>ls. int (length l)) then r \<le> int (length l)
                   else l = last ls \<and> r = p - int (length a) - (\<Sum>l\<leftarrow>ls. int (length l))"
        by blast
      from True res have "for_line (a # ls) line p = (Some l, r)"
        by (simp add: Let_def)
      moreover from rest False
      have "if p \<le> (\<Sum>l\<leftarrow>a # ls. int (length l)) then r \<le> int (length l)
            else l = last (a # ls) \<and> r = p - (\<Sum>l\<leftarrow>a # ls. int (length l))"
        by (simp split: if_splits)
      ultimately show ?thesis using mem r0 by simp
    qed
  qed
qed

text \<open>
  Claim C4, as the code has it. On a text that is not empty and an offset that is not
  negative, \<open>code_to_line\<close> returns one of the text's lines and a relative offset that is
  not negative. An offset within the text gives a relative offset within the returned
  line. An offset beyond the text gives the last line and the offset less the length of
  the text: the distance past the end, with no bound applied.
\<close>

theorem code_to_line_result:
  assumes "code \<noteq> []" and "0 \<le> cursor_pos"
  shows "\<exists>line rel. code_to_line code cursor_pos = Inr (line, rel) \<and>
           line \<in> set (splitlines code) \<and> 0 \<le> rel \<and>
           (if cursor_pos \<le> int (length code) then rel \<le> int (length line)
            else line = last (splitlines code) \<and> rel = cursor_pos - int (length code))"
proof -
  from assms(1) have "splitlines code \<noteq> []"
    by (simp add: splitlines_def splitlines_from_Nil)
  from for_line_result [OF this assms(2), of None]
  obtain l r where "for_line (splitlines code) None cursor_pos = (Some l, r)"
    and "l \<in> set (splitlines code)" and "0 \<le> r"
    and "if cursor_pos \<le> int (length code) then r \<le> int (length l)
         else l = last (splitlines code) \<and> r = cursor_pos - int (length code)"
    unfolding length_splitlines by blast
  then show ?thesis
    by (simp add: code_to_line_def)
qed

text \<open>The example of the specification: offset 5 in two lines of four characters.\<close>

theorem code_to_line_result_witness:
  "''abc\<newline>def\<newline>'' \<noteq> [] \<and> (0::int) \<le> 5 \<and>
   (\<exists>line rel. code_to_line ''abc\<newline>def\<newline>'' 5 = Inr (line, rel) \<and>
      line \<in> set (splitlines ''abc\<newline>def\<newline>'') \<and> 0 \<le> rel \<and> rel \<le> int (length line))"
  using code_to_line_result [of "''abc\<newline>def\<newline>''" 5] by simp

text \<open>Claim C4 as stated fails: offset 10 in the text \<^verbatim>\<open>abc\<close> gives the relative offset 7,
  which is past the end of the only line.\<close>

theorem code_to_line_not_clamped:
  "code_to_line ''abc'' 10 = Inr (''abc'', 7) \<and> \<not> (7::int) \<le> int (length ''abc'')"
  by (simp add: code_to_line_def splitlines_def line_boundary_def)

text \<open>On the empty text the loop never binds \<^verbatim>\<open>line\<close>, and the \<^verbatim>\<open>return\<close> raises.\<close>

lemma code_to_line_empty: "code_to_line [] cursor_pos = Inl UnboundLocalError"
  by (simp add: code_to_line_def splitlines_def)

subsection \<open>Version strings\<close>





subsection \<open>Sequencing and dictionaries\<close>


lemma ebind_simps [simp]: "ebind (Inl e) f = Inl e" "ebind (Inr x) f = f x"
  by (simp_all add: ebind_def)


lemma setitem_Inr: "setitem x k v = Inr y \<Longrightarrow> \<exists>d. x = PDict d \<and> y = PDict (AList.update k v d)"
  by (cases x) auto



subsection \<open>What a handler changes\<close>






subsection \<open>The two copies of the message type stay in sync\<close>







subsection \<open>The entry point\<close>






subsection \<open>Replies with an error status\<close>

text \<open>Whenever a handler is found for the renamed type and the status of the content is
  \<^verbatim>\<open>error\<close> or \<^verbatim>\<open>aborted\<close>, the call raises.\<close>

lemma call_error_status_raises:
  assumes "update_header self msg = Inr m1"
    and "update_msg_type self m1 = Inr m2"
    and "getitem m2 ''header'' = Inr header"
    and "getitem header ''msg_type'' = Inr msg_type"
    and "getattr ext self msg_type = Inr (Some handler)"
    and "getitem m2 ''content'' = Inr content"
    and "get content ''status'' PNone = Inr status"
    and "status = PStr ''error'' \<or> status = PStr ''aborted''"
  shows "call ext self msg = Inl TypeError"
  using assms by (auto simp: call_def update_metadata_def)

text \<open>
  Claim C1, on the code. An \<^verbatim>\<open>execute_reply\<close> of version 5 with the status \<^verbatim>\<open>error\<close>,
  adapted to version 4: the handler for error replies is called as
  \<^verbatim>\<open>self.handle_reply_status_error(msg)\<close> and takes one parameter, so the call raises
  \<^verbatim>\<open>TypeError\<close> and no message is returned.
\<close>

theorem adapt_error_reply_raises:
  "adapt ext
     (PDict [(''header'', PDict [(''msg_type'', PStr ''execute_reply''), (''version'', PStr ''5.0'')]),
             (''msg_type'', PStr ''execute_reply''),
             (''content'', PDict [(''status'', PStr ''error''), (''ename'', PStr ''NameError'')]),
             (''metadata'', PDict [])]) 4
   = Inl TypeError"
  by code_simp

subsection \<open>Kernel information, from version 5 to version 4\<close>

text \<open>
  Claim C3, on the code. A \<^verbatim>\<open>kernel_info_reply\<close> of the implementation \<^verbatim>\<open>ipython\<close> with
  its \<^verbatim>\<open>implementation_version\<close>, adapted to version 4: the handler pops the key
  \<^verbatim>\<open>implmentation_version\<close>, which the content does not have, and raises \<^verbatim>\<open>KeyError\<close>.
\<close>

theorem adapt_kernel_info_reply_raises:
  "adapt ext
     (PDict [(''header'', PDict [(''msg_type'', PStr ''kernel_info_reply''), (''version'', PStr ''5.0'')]),
             (''msg_type'', PStr ''kernel_info_reply''),
             (''content'', PDict [(''protocol_version'', PStr ''5.0''),
                                  (''implementation'', PStr ''ipython''),
                                  (''implementation_version'', PStr ''3.0.0''),
                                  (''language'', PStr ''python''),
                                  (''language_version'', PStr ''3.4.1''),
                                  (''banner'', PStr ''IPython'')]),
             (''metadata'', PDict [])]) 4
   = Inl KeyError"
  by code_simp

subsection \<open>Completion replies, from version 5 to version 4\<close>

lemma pop_default_dict:
  "pop_default (PDict d) k dflt =
     Inr (case map_of d k of Some v \<Rightarrow> v | None \<Rightarrow> dflt, PDict (AList.delete k d))"
proof (cases "map_of d k")
  case None
  then have "k \<notin> fst ` set d" by (simp add: map_of_eq_None_iff)
  with None show ?thesis by simp
next
  case (Some v)
  then show ?thesis by simp
qed

text \<open>
  Claim C2, as the code has it. For a content with integer cursor positions and a list
  of matches whose first is a string, the matched text is that first match cut to its
  first \<open>cursor_end - cursor_start\<close> characters, and the keys \<^verbatim>\<open>cursor_start\<close>,
  \<^verbatim>\<open>cursor_end\<close> and \<^verbatim>\<open>metadata\<close> are gone.
\<close>

theorem V5toV4_complete_reply_result:
  assumes "getitem msg ''content'' = Inr (PDict d)"
    and "map_of d ''cursor_start'' = Some (PInt a)"
    and "map_of d ''cursor_end'' = Some (PInt b)"
    and "map_of d ''matches'' = Some (PList (PStr m # ms))"
  shows "\<exists>d'. V5toV4_complete_reply msg = setitem msg ''content'' (PDict d') \<and>
           map_of d' ''matched_text'' = Some (PStr (slice_to m (b - a))) \<and>
           map_of d' ''cursor_start'' = None \<and> map_of d' ''cursor_end'' = None \<and>
           map_of d' ''metadata'' = None \<and>
           map_of d' ''matches'' = map_of d ''matches''"
proof -
  let ?d' = "AList.delete ''metadata''
       (AList.update ''matched_text'' (PStr (slice_to m (b - a)))
          (AList.delete ''cursor_end'' (AList.delete ''cursor_start'' d)))"
  have "V5toV4_complete_reply msg = setitem msg ''content'' (PDict ?d')"
    using assms
    by (simp add: V5toV4_complete_reply_def subtract_def delete_conv update_conv'
                  pop_default_dict
             del: pop_default.simps)
  moreover have "map_of ?d' ''matched_text'' = Some (PStr (slice_to m (b - a)))"
    "map_of ?d' ''cursor_start'' = None" "map_of ?d' ''cursor_end'' = None"
    "map_of ?d' ''metadata'' = None" "map_of ?d' ''matches'' = map_of d ''matches''"
    by (simp_all add: delete_conv update_conv')
  ultimately show ?thesis by blast
qed

text \<open>The content of the claim: the matched text is \<^verbatim>\<open>foo\<close>.\<close>

theorem V5toV4_complete_reply_result_witness:
  "getitem (PDict [(''content'', PDict [(''matches'', PList [PStr ''foobar'', PStr ''foobaz'']),
                                        (''cursor_start'', PInt 3), (''cursor_end'', PInt 6)])])
     ''content''
     = Inr (PDict [(''matches'', PList [PStr ''foobar'', PStr ''foobaz'']),
                   (''cursor_start'', PInt 3), (''cursor_end'', PInt 6)]) \<and>
   (\<exists>d'. V5toV4_complete_reply
            (PDict [(''content'', PDict [(''matches'', PList [PStr ''foobar'', PStr ''foobaz'']),
                                         (''cursor_start'', PInt 3), (''cursor_end'', PInt 6)])])
          = Inr (PDict [(''content'', PDict d')]) \<and>
          map_of d' ''matched_text'' = Some (PStr ''foo'') \<and>
          map_of d' ''cursor_start'' = None \<and> map_of d' ''cursor_end'' = None \<and>
          map_of d' ''metadata'' = None)"
  using V5toV4_complete_reply_result
    [of "PDict [(''content'', PDict [(''matches'', PList [PStr ''foobar'', PStr ''foobaz'']),
                                     (''cursor_start'', PInt 3), (''cursor_end'', PInt 6)])]"
        "[(''matches'', PList [PStr ''foobar'', PStr ''foobaz'']),
          (''cursor_start'', PInt 3), (''cursor_end'', PInt 6)]"
        3 6 "''foobar''" "[PStr ''foobaz'']"]
  by (auto simp: slice_to_def)

text \<open>Claim C2 as stated fails: on its content the matched text is \<^verbatim>\<open>foo\<close>, the first
  three characters of the first match, and not \<^verbatim>\<open>bar\<close>.\<close>

theorem V5toV4_complete_reply_not_bar:
  "V5toV4_complete_reply
     (PDict [(''content'', PDict [(''matches'', PList [PStr ''foobar'', PStr ''foobaz'']),
                                  (''cursor_start'', PInt 3), (''cursor_end'', PInt 6)])])
   = Inr (PDict [(''content'', PDict [(''matches'', PList [PStr ''foobar'', PStr ''foobaz'']),
                                      (''matched_text'', PStr ''foo'')])]) \<and>
   PStr ''foo'' \<noteq> PStr ''bar''"
  by code_simp

subsection \<open>Inspect replies, from version 4 to version 5\<close>

lemma for_key_append_text:
  "list_all (text_or_none d) keys \<Longrightarrow>
   for_key_append keys (PDict d) lines =
     Inr (lines @ (case first_nonempty d keys of None \<Rightarrow> [] | Some s \<Rightarrow> [PStr s]))"
proof (induction keys)
  case Nil
  then show ?case by simp
next
  case (Cons key keys)
  then have rest: "for_key_append keys (PDict d) lines =
     Inr (lines @ (case first_nonempty d keys of None \<Rightarrow> [] | Some s \<Rightarrow> [PStr s]))"
    and key: "text_or_none d key"
    by simp_all
  show ?case
  proof (cases "map_of d key")
    case None
    with rest show ?thesis by simp
  next
    case (Some v)
    with key rest show ?thesis
      by (cases v) (simp_all add: text_or_none_def)
  qed
qed

text \<open>
  Claim C8. For a content that was found, has a name, and holds strings or \<^verbatim>\<open>None\<close>
  under the six keys of definitions and docstrings, the new content is the status, the
  two carried fields, the data with the text of the specification under
  \<^verbatim>\<open>text/plain\<close>, and empty metadata.
\<close>

theorem V4toV5_inspect_reply_found:
  assumes "getitem msg ''content'' = Inr (PDict d)"
    and "map_of d ''found'' = Some found" and "truthy found"
    and "map_of d ''name'' = Some name"
    and "list_all (text_or_none d)
           [''call_def'', ''init_definition'', ''definition'',
            ''call_docstring'', ''init_docstring'', ''docstring'']"
  shows "V4toV5_inspect_reply msg =
         setitem msg ''content''
           (PDict [(''status'', PStr ''ok''), (''found'', found), (''name'', name),
                   (''data'', PDict [(''text/plain'', PStr (inspect_text d))]),
                   (''metadata'', PDict [])])"
proof -
  from assms(5) have defs: "list_all (text_or_none d) [''call_def'', ''init_definition'', ''definition'']"
    and docs: "list_all (text_or_none d) [''call_docstring'', ''init_docstring'', ''docstring'']"
    by simp_all
  let ?a = "first_nonempty d [''call_def'', ''init_definition'', ''definition'']"
  let ?b = "first_nonempty d [''call_docstring'', ''init_docstring'', ''docstring'']"
  have lines: "ebind (for_key_append [''call_def'', ''init_definition'', ''definition''] (PDict d) [])
          (\<lambda>lines. ebind (for_key_append [''call_docstring'', ''init_docstring'', ''docstring''] (PDict d) lines)
          (\<lambda>lines. ebind (join_values ''\<newline>'' (if lines = [] then [PStr ''<empty docstring>''] else lines))
          (\<lambda>text. Inr (PDict [(''text/plain'', text)]))))
        = Inr (PDict [(''text/plain'', PStr (inspect_text d))])"
    unfolding for_key_append_text [OF defs] for_key_append_text [OF docs]
    by (cases ?a; cases ?b) (simp_all add: inspect_text_def join_values_def)
  from assms(1-4) show ?thesis
    unfolding V4toV5_inspect_reply_def
    by (simp add: lines del: for_key_append.simps)
qed

text \<open>The two examples of the specification: a definition and a docstring, and neither.\<close>

theorem V4toV5_inspect_reply_found_witness:
  "truthy (PBool True) \<and>
   list_all (text_or_none [(''found'', PBool True), (''name'', PStr ''f''),
                           (''definition'', PStr ''f(x)''), (''docstring'', PStr ''does a thing'')])
     [''call_def'', ''init_definition'', ''definition'',
      ''call_docstring'', ''init_docstring'', ''docstring''] \<and>
   V4toV5_inspect_reply
     (PDict [(''content'', PDict [(''found'', PBool True), (''name'', PStr ''f''),
                                  (''definition'', PStr ''f(x)''),
                                  (''docstring'', PStr ''does a thing'')])])
   = Inr (PDict [(''content'',
            PDict [(''status'', PStr ''ok''), (''found'', PBool True), (''name'', PStr ''f''),
                   (''data'', PDict [(''text/plain'', PStr ''f(x)\<newline>does a thing'')]),
                   (''metadata'', PDict [])])]) \<and>
   V4toV5_inspect_reply
     (PDict [(''content'', PDict [(''found'', PBool True), (''name'', PStr ''f'')])])
   = Inr (PDict [(''content'',
            PDict [(''status'', PStr ''ok''), (''found'', PBool True), (''name'', PStr ''f''),
                   (''data'', PDict [(''text/plain'', PStr ''<empty docstring>'')]),
                   (''metadata'', PDict [])])])"
proof -
  let ?d = "[(''found'', PBool True), (''name'', PStr ''f''),
             (''definition'', PStr ''f(x)''), (''docstring'', PStr ''does a thing'')]"
  let ?e = "[(''found'', PBool True), (''name'', PStr ''f'')]"
  have fields: "list_all (text_or_none ?d)
     [''call_def'', ''init_definition'', ''definition'',
      ''call_docstring'', ''init_docstring'', ''docstring'']"
    by code_simp
  have fields': "list_all (text_or_none ?e)
     [''call_def'', ''init_definition'', ''definition'',
      ''call_docstring'', ''init_docstring'', ''docstring'']"
    by code_simp
  have shown: "inspect_text ?d = ''f(x)\<newline>does a thing''"
    by code_simp
  have shown': "inspect_text ?e = ''<empty docstring>''"
    by code_simp
  from V4toV5_inspect_reply_found [of "PDict [(''content'', PDict ?d)]" ?d "PBool True" "PStr ''f''"]
    V4toV5_inspect_reply_found [of "PDict [(''content'', PDict ?e)]" ?e "PBool True" "PStr ''f''"]
    fields fields' shown shown'
  show ?thesis by simp
qed

subsection \<open>Display data whose JSON entry cannot be converted\<close>

lemma try_pass_Inl: "e \<noteq> Not_modelled \<Longrightarrow> try_pass x (Inl e) = Inr x"
  by (cases e) (simp_all add: try_pass_def)

text \<open>
  Claim C9. When the data of a \<^verbatim>\<open>display_data\<close> content has an \<^verbatim>\<open>application/json\<close> entry
  and the conversion of it raises, the handler returns the message; its content differs
  from the one it was given in the key \<^verbatim>\<open>source\<close> alone, which the handler sets or drops
  before it looks at the data. The data, the entry with it, is as it was.
\<close>

theorem display_data_json_failure:
  assumes "getitem msg ''content'' = Inr (PDict c)"
    and "map_of c ''data'' = Some (PDict d)"
    and "map_of d ''application/json'' = Some v"
  shows "(json_dumps ext v = Inl e \<and> e \<noteq> Not_modelled \<longrightarrow>
            V5toV4_display_data ext msg =
            setitem msg ''content''
              (PDict (if map_of c ''source'' = None then c @ [(''source'', PStr ''display'')] else c))) \<and>
         (json_loads ext v = Inl e' \<and> e' \<noteq> Not_modelled \<longrightarrow>
            V4toV5_display_data ext msg =
            setitem msg ''content'' (PDict (AList.delete ''source'' c)))"
proof (intro conjI impI)
  assume fail: "json_dumps ext v = Inl e \<and> e \<noteq> Not_modelled"
  let ?c = "if map_of c ''source'' = None then c @ [(''source'', PStr ''display'')] else c"
  have sd: "\<exists>x. setdefault (PDict c) ''source'' (PStr ''display'') = Inr (x, PDict ?c)"
    by (auto split: option.splits)
  have data: "map_of ?c ''data'' = Some (PDict d)"
    using assms(2) by (simp add: map_of_append)
  then have same: "AList.update ''data'' (PDict d) ?c = ?c"
    by (rule update_triv)
  from sd obtain x where "setdefault (PDict c) ''source'' (PStr ''display'') = Inr (x, PDict ?c)" ..
  with assms fail data same show "V5toV4_display_data ext msg = setitem msg ''content'' (PDict ?c)"
    unfolding V5toV4_display_data_def
    by (simp add: try_pass_Inl del: setdefault.simps)
next
  assume fail: "json_loads ext v = Inl e' \<and> e' \<noteq> Not_modelled"
  let ?c = "AList.delete ''source'' c"
  have data: "map_of ?c ''data'' = Some (PDict d)"
    using assms(2) by simp
  then have same: "AList.update ''data'' (PDict d) ?c = ?c"
    by (rule update_triv)
  with assms fail data show "V4toV5_display_data ext msg = setitem msg ''content'' (PDict ?c)"
    unfolding V4toV5_display_data_def
    by (simp add: try_pass_Inl pop_default_dict del: pop_default.simps)
qed

text \<open>An object that JSON cannot write, on the way to version 4; an empty string that
  JSON cannot read, on the way to version 5.\<close>

theorem display_data_json_failure_witness:
  "json_dumps sample_externals (PObj 0) = Inl TypeError \<and>
   json_loads sample_externals (PStr []) = Inl ValueError \<and>
   V5toV4_display_data sample_externals
     (PDict [(''content'', PDict [(''data'', PDict [(''application/json'', PObj 0),
                                                    (''text/plain'', PStr ''x'')])])])
   = Inr (PDict [(''content'', PDict [(''data'', PDict [(''application/json'', PObj 0),
                                                        (''text/plain'', PStr ''x'')]),
                                      (''source'', PStr ''display'')])]) \<and>
   V4toV5_display_data sample_externals
     (PDict [(''content'', PDict [(''source'', PStr ''display''),
                                  (''data'', PDict [(''application/json'', PStr []),
                                                    (''text/plain'', PStr ''x'')])])])
   = Inr (PDict [(''content'', PDict [(''data'', PDict [(''application/json'', PStr []),
                                                        (''text/plain'', PStr ''x'')])])])"
proof -
  have dumps: "json_dumps sample_externals (PObj 0) = Inl TypeError"
    and loads: "json_loads sample_externals (PStr []) = Inl ValueError"
    by (simp_all add: sample_externals_def sample_dumps_def sample_loads_def)
  from display_data_json_failure
    [of "PDict [(''content'', PDict [(''data'', PDict [(''application/json'', PObj 0),
                                                       (''text/plain'', PStr ''x'')])])]"
        "[(''data'', PDict [(''application/json'', PObj 0), (''text/plain'', PStr ''x'')])]"
        "[(''application/json'', PObj 0), (''text/plain'', PStr ''x'')]"
        "PObj 0" sample_externals TypeError TypeError]
    display_data_json_failure
    [of "PDict [(''content'', PDict [(''source'', PStr ''display''),
                                     (''data'', PDict [(''application/json'', PStr []),
                                                       (''text/plain'', PStr ''x'')])])]"
        "[(''source'', PStr ''display''),
          (''data'', PDict [(''application/json'', PStr []), (''text/plain'', PStr ''x'')])]"
        "[(''application/json'', PStr []), (''text/plain'', PStr ''x'')]"
        "PStr []" sample_externals ValueError ValueError]
    dumps loads
  show ?thesis by simp
qed

end
